theory Spec2Isabelle
  imports Main "HOL-Library.Char_ord" "HOL-Library.List_Lexorder"
begin

section \<open>Resource model (pkg/models/resource.go, pkg/types/filters.go)\<close>

text \<open>
  A Go \<open>time.Time\<close> is modelled as an instant on the integer line (nanoseconds since
  the epoch); \<open>Before\<close> and \<open>After\<close> are the strict orders on instants.
\<close>

type_synonym time = int

definition Before :: "time \<Rightarrow> time \<Rightarrow> bool" where
  "Before t u = (t < u)"

definition After :: "time \<Rightarrow> time \<Rightarrow> bool" where
  "After t u = (u < t)"

record ResourceStatus =
  State :: string
  Health :: string
  LastChecked :: time

text \<open>
  The \<open>Metadata\<close> and \<open>Cost\<close> fields of a resource are written by the collectors and
  read by the renderers only; no operation modelled here inspects them, and they are left
  out of the record. A Go \<open>map[string]string\<close> that is only looked up is a partial
  function; the nil map and the empty map both answer every lookup with "absent".
\<close>

record Resource =
  ID :: string
  Name :: string
  Type :: string
  Provider :: string
  Region :: string
  Status :: ResourceStatus
  Tags :: "string \<rightharpoonup> string"
  CreatedAt :: time
  UpdatedAt :: time

text \<open>
  The filter's tag map is ranged over by the predicates, so it is the list of its
  entries in the order the range statement happens to yield them. The two time bounds are
  pointers in the source: \<open>None\<close> is nil.
\<close>

record ResourceFilters =
  f_Regions :: "string list"
  f_ResourceTypes :: "string list"
  f_Tags :: "(string \<times> string) list"
  f_Status :: "string list"
  CreatedAfter :: "time option"
  CreatedBefore :: "time option"

definition emptyFilters :: ResourceFilters where
  "emptyFilters = \<lparr> f_Regions = [], f_ResourceTypes = [], f_Tags = [], f_Status = [],
     CreatedAfter = None, CreatedBefore = None \<rparr>"

definition GetTag :: "Resource \<Rightarrow> string \<Rightarrow> string option" where
  "GetTag r key = Tags r key"

subsection \<open>Case-insensitive comparison\<close>

text \<open>
  \<open>strings.EqualFold s t\<close> compares two UTF-8 strings rune by rune under simple Unicode
  case folding. Every call site passes an ASCII literal as \<open>t\<close>; for an ASCII rune of
  \<open>t\<close> the runes that fold to it are the rune itself, its other ASCII case, and for
  \<open>k\<close> the Kelvin sign U+212A (bytes E2 84 AA), for \<open>s\<close> the long s U+017F (bytes
  C5 BF). Any other byte sequence, well-formed or not, decodes to a rune that matches no
  ASCII rune.
\<close>

definition isUpperASCII :: "char \<Rightarrow> bool" where
  "isUpperASCII c = (65 \<le> (of_char c :: nat) \<and> (of_char c :: nat) \<le> 90)"

definition asciiFold :: "char \<Rightarrow> char \<Rightarrow> bool" where
  "asciiFold sr tr =
     (let lo = (if (of_char tr :: nat) < of_char sr then tr else sr);
          hi = (if (of_char tr :: nat) < of_char sr then sr else tr)
      in isUpperASCII lo \<and> (of_char hi :: nat) = of_char lo + 32)"

fun EqualFold :: "string \<Rightarrow> string \<Rightarrow> bool" where
  "EqualFold [] [] = True"
| "EqualFold [] (tr # t) = False"
| "EqualFold (sr # s) [] = False"
| "EqualFold (sr # s) (tr # t) =
     (if tr = sr \<or> asciiFold sr tr then EqualFold s t
      else if (tr = CHR ''k'' \<or> tr = CHR ''K'') \<and> sr = CHR 0xE2 then
        (case s of
           b1 # b2 # s' \<Rightarrow> if b1 = CHR 0x84 \<and> b2 = CHR 0xAA then EqualFold s' t else False
         | _ \<Rightarrow> False)
      else if (tr = CHR ''s'' \<or> tr = CHR ''S'') \<and> sr = CHR 0xC5 then
        (case s of
           b1 # s' \<Rightarrow> if b1 = CHR 0xBF then EqualFold s' t else False
         | _ \<Rightarrow> False)
      else False)"

section \<open>Filter predicates of the collectors\<close>

definition tagsMatch :: "Resource \<Rightarrow> (string \<times> string) list \<Rightarrow> bool" where
  "tagsMatch resource tags =
     list_all (\<lambda>(key, val). case GetTag resource key of
                                None \<Rightarrow> False
                              | Some resourceValue \<Rightarrow> resourceValue = val) tags"

definition regionFound :: "Resource \<Rightarrow> string list \<Rightarrow> bool" where
  "regionFound resource regions = list_ex (\<lambda>region. Region resource = region) regions"

text \<open>
  Each collector carries its own copy of the predicate. The kind clause looks only at the
  filter (does any requested kind name this collector?), never at the resource's own
  \<open>Type\<close>. The loops that set \<open>found\<close> and break are \<open>list_ex\<close>; the tag loop that
  returns false at the first mismatch is \<open>list_all\<close>.
\<close>

definition EC2_matchesFilters :: "Resource \<Rightarrow> ResourceFilters \<Rightarrow> bool" where
  "EC2_matchesFilters resource filters =
     (if f_ResourceTypes filters \<noteq> [] \<and>
         \<not> list_ex (\<lambda>rt. EqualFold rt ''ec2'' \<or> EqualFold rt ''instance'' \<or>
                           EqualFold rt ''virtual_machine'') (f_ResourceTypes filters)
        then False
      else if (case CreatedAfter filters of
                 None \<Rightarrow> False | Some t \<Rightarrow> Before (CreatedAt resource) t)
        then False
      else if (case CreatedBefore filters of
                 None \<Rightarrow> False | Some t \<Rightarrow> After (CreatedAt resource) t)
        then False
      else True)"

definition S3_matchesFilters :: "Resource \<Rightarrow> ResourceFilters \<Rightarrow> bool" where
  "S3_matchesFilters resource filters =
     (if f_ResourceTypes filters \<noteq> [] \<and>
         \<not> list_ex (\<lambda>rt. EqualFold rt ''s3'' \<or> EqualFold rt ''bucket'' \<or>
                           EqualFold rt ''object_storage'') (f_ResourceTypes filters)
        then False
      else if f_Regions filters \<noteq> [] \<and> \<not> regionFound resource (f_Regions filters)
        then False
      else if \<not> tagsMatch resource (f_Tags filters)
        then False
      else if (case CreatedAfter filters of
                 None \<Rightarrow> False | Some t \<Rightarrow> Before (CreatedAt resource) t)
        then False
      else if (case CreatedBefore filters of
                 None \<Rightarrow> False | Some t \<Rightarrow> After (CreatedAt resource) t)
        then False
      else True)"

definition RDS_matchesFilters :: "Resource \<Rightarrow> ResourceFilters \<Rightarrow> bool" where
  "RDS_matchesFilters resource filters =
     (if f_ResourceTypes filters \<noteq> [] \<and>
         \<not> list_ex (\<lambda>rt. EqualFold rt ''rds'' \<or> EqualFold rt ''rds_instance'' \<or>
                           EqualFold rt ''rds_cluster'' \<or> EqualFold rt ''database'' \<or>
                           EqualFold rt ''postgres'' \<or> EqualFold rt ''postgresql'' \<or>
                           EqualFold rt ''mysql'') (f_ResourceTypes filters)
        then False
      else if f_Regions filters \<noteq> [] \<and> \<not> regionFound resource (f_Regions filters)
        then False
      else if \<not> tagsMatch resource (f_Tags filters)
        then False
      else if (case CreatedAfter filters of
                 None \<Rightarrow> False | Some t \<Rightarrow> Before (CreatedAt resource) t)
        then False
      else if (case CreatedBefore filters of
                 None \<Rightarrow> False | Some t \<Rightarrow> After (CreatedAt resource) t)
        then False
      else True)"

definition IAM_matchesFilters :: "Resource \<Rightarrow> ResourceFilters \<Rightarrow> bool" where
  "IAM_matchesFilters resource filters =
     (if f_ResourceTypes filters \<noteq> [] \<and>
         \<not> list_ex (\<lambda>rt. EqualFold rt ''iam'' \<or> EqualFold rt ''iam_user'' \<or>
                           EqualFold rt ''iam_role'' \<or> EqualFold rt ''iam_policy'' \<or>
                           EqualFold rt ''user'' \<or> EqualFold rt ''role'' \<or>
                           EqualFold rt ''policy'') (f_ResourceTypes filters)
        then False
      else if \<not> tagsMatch resource (f_Tags filters)
        then False
      else if (case CreatedAfter filters of
                 None \<Rightarrow> False | Some t \<Rightarrow> Before (CreatedAt resource) t)
        then False
      else if (case CreatedBefore filters of
                 None \<Rightarrow> False | Some t \<Rightarrow> After (CreatedAt resource) t)
        then False
      else True)"

definition VPC_matchesFilters :: "Resource \<Rightarrow> ResourceFilters \<Rightarrow> bool" where
  "VPC_matchesFilters resource filters =
     (if f_ResourceTypes filters \<noteq> [] \<and>
         \<not> list_ex (\<lambda>rt. EqualFold rt ''vpc'' \<or> EqualFold rt ''network'' \<or>
                           EqualFold rt ''security_group'' \<or> EqualFold rt ''firewall'')
              (f_ResourceTypes filters)
        then False
      else if f_Regions filters \<noteq> [] \<and> \<not> regionFound resource (f_Regions filters)
        then False
      else if \<not> tagsMatch resource (f_Tags filters)
        then False
      else True)"

section \<open>Kind and health normalisation\<close>

subsection \<open>GetResourceTypeFromString (pkg/models/resource.go)\<close>

text \<open>
  \<open>ResourceType\<close> is a named string type; its constants are the canonical kinds.
\<close>

type_synonym ResourceType = string

definition ResourceTypeVirtualMachine :: ResourceType where
  "ResourceTypeVirtualMachine = ''virtual_machine''"
definition ResourceTypeContainer :: ResourceType where
  "ResourceTypeContainer = ''container''"
definition ResourceTypeFunction :: ResourceType where
  "ResourceTypeFunction = ''function''"
definition ResourceTypeCluster :: ResourceType where
  "ResourceTypeCluster = ''cluster''"
definition ResourceTypeObjectStorage :: ResourceType where
  "ResourceTypeObjectStorage = ''object_storage''"
definition ResourceTypeBlockStorage :: ResourceType where
  "ResourceTypeBlockStorage = ''block_storage''"
definition ResourceTypeFileStorage :: ResourceType where
  "ResourceTypeFileStorage = ''file_storage''"
definition ResourceTypeDatabase :: ResourceType where
  "ResourceTypeDatabase = ''database''"
definition ResourceTypeVPC :: ResourceType where
  "ResourceTypeVPC = ''vpc''"
definition ResourceTypeSubnet :: ResourceType where
  "ResourceTypeSubnet = ''subnet''"
definition ResourceTypeLoadBalancer :: ResourceType where
  "ResourceTypeLoadBalancer = ''load_balancer''"
definition ResourceTypeSecurityGroup :: ResourceType where
  "ResourceTypeSecurityGroup = ''security_group''"
definition ResourceTypeGateway :: ResourceType where
  "ResourceTypeGateway = ''gateway''"
definition ResourceTypeUser :: ResourceType where
  "ResourceTypeUser = ''user''"
definition ResourceTypeRole :: ResourceType where
  "ResourceTypeRole = ''role''"
definition ResourceTypePolicy :: ResourceType where
  "ResourceTypePolicy = ''policy''"
definition ResourceTypeSecret :: ResourceType where
  "ResourceTypeSecret = ''secret''"
definition ResourceTypeMetric :: ResourceType where
  "ResourceTypeMetric = ''metric''"
definition ResourceTypeAlarm :: ResourceType where
  "ResourceTypeAlarm = ''alarm''"
definition ResourceTypeDashboard :: ResourceType where
  "ResourceTypeDashboard = ''dashboard''"
definition ResourceTypeUnknown :: ResourceType where
  "ResourceTypeUnknown = ''unknown''"

text \<open>
  The switch compares the argument with the literals of each case in turn (exact,
  case-sensitive string equality); the first case that lists it decides.
\<close>

definition GetResourceTypeFromString :: "string \<Rightarrow> ResourceType" where
  "GetResourceTypeFromString s =
    (if s \<in> set [''virtual_machine'', ''vm'', ''ec2'', ''compute_engine'', ''virtual_machines'']
       then ResourceTypeVirtualMachine
     else if s \<in> set [''container'', ''containers'', ''ecs'', ''gke'', ''aci'']
       then ResourceTypeContainer
     else if s \<in> set [''function'', ''functions'', ''lambda'', ''cloud_functions'',
                        ''azure_functions'']
       then ResourceTypeFunction
     else if s \<in> set [''cluster'', ''clusters'', ''eks'', ''gke_cluster'', ''aks'']
       then ResourceTypeCluster
     else if s \<in> set [''object_storage'', ''s3'', ''gcs'', ''blob_storage'']
       then ResourceTypeObjectStorage
     else if s \<in> set [''block_storage'', ''ebs'', ''persistent_disk'', ''managed_disk'']
       then ResourceTypeBlockStorage
     else if s \<in> set [''file_storage'', ''efs'', ''filestore'', ''azure_files'']
       then ResourceTypeFileStorage
     else if s \<in> set [''database'', ''databases'', ''rds'', ''cloud_sql'', ''cosmos_db'']
       then ResourceTypeDatabase
     else if s \<in> set [''vpc'', ''network'', ''vnet'']
       then ResourceTypeVPC
     else if s \<in> set [''subnet'', ''subnets'']
       then ResourceTypeSubnet
     else if s \<in> set [''load_balancer'', ''lb'', ''elb'', ''alb'', ''nlb'']
       then ResourceTypeLoadBalancer
     else if s \<in> set [''security_group'', ''firewall'', ''nsg'']
       then ResourceTypeSecurityGroup
     else if s \<in> set [''gateway'', ''nat_gateway'', ''internet_gateway'']
       then ResourceTypeGateway
     else if s \<in> set [''user'', ''users'']
       then ResourceTypeUser
     else if s \<in> set [''role'', ''roles'']
       then ResourceTypeRole
     else if s \<in> set [''policy'', ''policies'']
       then ResourceTypePolicy
     else if s \<in> set [''secret'', ''secrets'']
       then ResourceTypeSecret
     else if s \<in> set [''metric'', ''metrics'']
       then ResourceTypeMetric
     else if s \<in> set [''alarm'', ''alarms'', ''alert'']
       then ResourceTypeAlarm
     else if s \<in> set [''dashboard'', ''dashboards'']
       then ResourceTypeDashboard
     else ResourceTypeUnknown)"

text \<open>The enumeration of canonical kinds, in the order of the constant block.\<close>

definition canonicalKinds :: "ResourceType list" where
  "canonicalKinds =
     [ResourceTypeVirtualMachine, ResourceTypeContainer, ResourceTypeFunction,
      ResourceTypeCluster, ResourceTypeObjectStorage, ResourceTypeBlockStorage,
      ResourceTypeFileStorage, ResourceTypeDatabase, ResourceTypeVPC, ResourceTypeSubnet,
      ResourceTypeLoadBalancer, ResourceTypeSecurityGroup, ResourceTypeGateway,
      ResourceTypeUser, ResourceTypeRole, ResourceTypePolicy, ResourceTypeSecret,
      ResourceTypeMetric, ResourceTypeAlarm, ResourceTypeDashboard, ResourceTypeUnknown]"

subsection \<open>Health of an EC2 instance state (pkg/providers/aws/ec2.go)\<close>

definition HealthHealthy :: string where "HealthHealthy = ''healthy''"
definition HealthUnhealthy :: string where "HealthUnhealthy = ''unhealthy''"
definition HealthWarning :: string where "HealthWarning = ''warning''"
definition HealthUnknown :: string where "HealthUnknown = ''unknown''"

text \<open>
  \<open>types.InstanceStateName\<close> is the SDK's named string type for the state of an
  instance; these are the values of its six constants.
\<close>

type_synonym InstanceStateName = string

definition InstanceStateNamePending :: InstanceStateName where
  "InstanceStateNamePending = ''pending''"
definition InstanceStateNameRunning :: InstanceStateName where
  "InstanceStateNameRunning = ''running''"
definition InstanceStateNameShuttingDown :: InstanceStateName where
  "InstanceStateNameShuttingDown = ''shutting-down''"
definition InstanceStateNameTerminated :: InstanceStateName where
  "InstanceStateNameTerminated = ''terminated''"
definition InstanceStateNameStopping :: InstanceStateName where
  "InstanceStateNameStopping = ''stopping''"
definition InstanceStateNameStopped :: InstanceStateName where
  "InstanceStateNameStopped = ''stopped''"

definition mapInstanceHealthToHealth :: "InstanceStateName \<Rightarrow> string" where
  "mapInstanceHealthToHealth state =
     (if state = InstanceStateNameRunning then HealthHealthy
      else if state = InstanceStateNameStopped \<or> state = InstanceStateNameStopping
        then HealthUnhealthy
      else if state = InstanceStateNamePending then HealthWarning
      else if state = InstanceStateNameTerminated then HealthUnhealthy
      else if state = InstanceStateNameShuttingDown then HealthWarning
      else HealthUnknown)"

text \<open>The states the switch has a case for: the mapping table of the kind.\<close>

definition instanceStateTable :: "InstanceStateName list" where
  "instanceStateTable =
     [InstanceStateNameRunning, InstanceStateNameStopped, InstanceStateNameStopping,
      InstanceStateNamePending, InstanceStateNameTerminated, InstanceStateNameShuttingDown]"

section \<open>Provider configuration and region resolution\<close>

text \<open>
  \<open>AWSConfig\<close> embeds \<open>BaseProviderConfig\<close> (\<open>Enabled\<close>, \<open>Regions\<close>). A nil slice and
  an empty slice both have length 0 and are the empty list.
\<close>

record AWSConfig =
  cfg_Enabled :: bool
  cfg_Regions :: "string list"
  cfg_Profile :: string
  cfg_Region :: string
  cfg_AccessKeyID :: string
  cfg_SecretAccessKey :: string
  cfg_SessionToken :: string
  cfg_RoleARN :: string
  cfg_ExternalID :: string
  cfg_MFASerial :: string
  cfg_DurationSeconds :: int

definition GetRegions :: "AWSConfig \<Rightarrow> string list" where
  "GetRegions c = cfg_Regions c"

definition EC2_getRegionsToQuery :: "AWSConfig \<Rightarrow> string list \<Rightarrow> string list" where
  "EC2_getRegionsToQuery config filterRegions =
     (if length filterRegions > 0 then filterRegions
      else let configRegions = GetRegions config in
        if length configRegions > 0 then configRegions
        else if cfg_Region config \<noteq> '''' then [cfg_Region config]
        else [''us-east-1''])"

definition RDS_getRegionsToQuery :: "AWSConfig \<Rightarrow> string list \<Rightarrow> string list" where
  "RDS_getRegionsToQuery config filterRegions =
     (if length filterRegions > 0 then filterRegions
      else let configRegions = GetRegions config in
        if length configRegions > 0 then configRegions
        else if cfg_Region config \<noteq> '''' then [cfg_Region config]
        else [''us-east-1''])"

definition VPC_getRegionsToQuery :: "AWSConfig \<Rightarrow> string list \<Rightarrow> string list" where
  "VPC_getRegionsToQuery config filterRegions =
     (if length filterRegions > 0 then filterRegions
      else let configRegions = GetRegions config in
        if length configRegions > 0 then configRegions
        else if cfg_Region config \<noteq> '''' then [cfg_Region config]
        else [''us-east-1''])"

section \<open>The AWS provider (pkg/providers/aws/aws.go)\<close>

text \<open>
  Go errors are values. The constructors below are the errors the modelled functions
  build with \<open>fmt.Errorf\<close>; one that wraps a cause (\<open>%w\<close>) carries it. \<open>External\<close>
  is an error that comes from outside the repository (the SDK, the network).
\<close>

datatype err =
    External string
  | ConfigNil
  | NotAuthenticated
  | InvalidConfigType
  | AuthenticationFailed err
  | InitializeServicesFailed err
  | CredentialValidationFailed err
  | CollectorFailed string err
  | UnsupportedResourceType string
  | ResourceNotFound string
  | ProviderNil
  | ProviderNameEmpty
  | ProviderAlreadyRegistered string
  | ProviderNotFound string

text \<open>
  \<open>config.ProviderConfig\<close> is an interface; the type assertion to \<open>*config.AWSConfig\<close>
  succeeds on an AWS configuration and fails on a value of any other dynamic type (the nil
  interface included).
\<close>

datatype ProviderConfig = AWS AWSConfig | NotAWS

text \<open>
  The provider's state. \<open>awsConfig\<close> is the SDK configuration the authenticator
  returns (opaque here); \<open>services\<close> stands for the five service objects, which
  \<open>initializeServices\<close> creates together from the provider's configuration: \<open>None\<close>
  while the pointers are nil.
\<close>

record AWSProvider =
  config :: AWSConfig
  awsConfig :: "string option"
  services :: "AWSConfig option"
  authenticated :: bool

definition NewAWSProvider :: "AWSConfig option \<Rightarrow> err + AWSProvider" where
  "NewAWSProvider cfg =
     (case cfg of
        None \<Rightarrow> Inl ConfigNil
      | Some c \<Rightarrow> Inr \<lparr> config = c, awsConfig = None, services = None,
                        authenticated = False \<rparr>)"

text \<open>
  What the authenticator answers is decided outside the repository's core: the two calls
  \<open>Authenticate\<close> makes on it are parameters. \<open>auth_Authenticate\<close> returns the SDK
  configuration or an error, \<open>auth_ValidateCredentials\<close> the caller identity (its ARN)
  or an error.
\<close>

record Authenticator =
  auth_Authenticate :: "AWSConfig \<Rightarrow> err + string"
  auth_ValidateCredentials :: "AWSConfig \<Rightarrow> err + string"

definition initializeServices :: "AWSProvider \<Rightarrow> AWSProvider \<times> err option" where
  "initializeServices p = (p\<lparr> services := Some (config p) \<rparr>, None)"

definition Authenticate :: "Authenticator \<Rightarrow> ProviderConfig \<Rightarrow> AWSProvider \<Rightarrow> AWSProvider \<times> err option" where
  "Authenticate authenticator cfg p =
     (case cfg of
        NotAWS \<Rightarrow> (p, Some InvalidConfigType)
      | AWS awsCfgIn \<Rightarrow>
          let p1 = p\<lparr> config := awsCfgIn \<rparr> in
          (case auth_Authenticate authenticator awsCfgIn of
             Inl e \<Rightarrow> (p1\<lparr> authenticated := False \<rparr>, Some (AuthenticationFailed e))
           | Inr awsCfg \<Rightarrow>
               let p2 = p1\<lparr> awsConfig := Some awsCfg, authenticated := True \<rparr> in
               (case initializeServices p2 of
                  (p3, Some e) \<Rightarrow>
                    (p3\<lparr> authenticated := False \<rparr>, Some (InitializeServicesFailed e))
                | (p3, None) \<Rightarrow>
                    (case auth_ValidateCredentials authenticator awsCfgIn of
                       Inl e \<Rightarrow>
                         (p3\<lparr> authenticated := False \<rparr>,
                          Some (CredentialValidationFailed e))
                     | Inr identity \<Rightarrow> (p3, None)))))"

definition IsAuthenticated :: "AWSProvider \<Rightarrow> bool" where
  "IsAuthenticated p = authenticated p"

subsection \<open>Collectors and the calls made on them\<close>

datatype collector =
    EC2_GetInstances
  | S3_GetBuckets
  | RDS_GetDatabases
  | RDS_GetClusters
  | IAM_GetUsers
  | IAM_GetRoles
  | IAM_GetPolicies
  | VPC_GetVPCs
  | VPC_GetSecurityGroups

text \<open>
  What a collector returns depends on the remote API, so the outcome of each service call
  is a parameter: \<open>collect c filters\<close> is the pair \<open>(resources, err)\<close> that collector
  \<open>c\<close> returns, as a sum. The two status probes are parameters in the same way.
\<close>

record Services =
  collect :: "collector \<Rightarrow> ResourceFilters \<Rightarrow> err + Resource list"
  GetInstanceStatus :: "string \<Rightarrow> err + ResourceStatus"
  GetBucketStatus :: "string \<Rightarrow> err + ResourceStatus"

text \<open>
  Every operation returns, next to its result, what it did: the service calls it made and
  the errors it logged as warnings.
\<close>

datatype call =
    Collect collector
  | InstanceStatus string
  | BucketStatus string

record effects =
  calls :: "call list"
  warnings :: "err list"

definition noEffects :: effects where
  "noEffects = \<lparr> calls = [], warnings = [] \<rparr>"

text \<open>The message prefix each goroutine of \<open>GetResources\<close> wraps a collector error in.\<close>

fun failureMessage :: "collector \<Rightarrow> string" where
  "failureMessage EC2_GetInstances = ''failed to get EC2 instances''"
| "failureMessage S3_GetBuckets = ''failed to get S3 buckets''"
| "failureMessage RDS_GetDatabases = ''failed to get RDS databases''"
| "failureMessage RDS_GetClusters = ''failed to get RDS clusters''"
| "failureMessage IAM_GetUsers = ''failed to get IAM users''"
| "failureMessage IAM_GetRoles = ''failed to get IAM roles''"
| "failureMessage IAM_GetPolicies = ''failed to get IAM policies''"
| "failureMessage VPC_GetVPCs = ''failed to get VPCs''"
| "failureMessage VPC_GetSecurityGroups = ''failed to get security groups''"

text \<open>The nine goroutines, in the order \<open>GetResources\<close> starts them.\<close>

definition goroutines :: "collector list" where
  "goroutines =
     [EC2_GetInstances, S3_GetBuckets, RDS_GetDatabases, RDS_GetClusters, IAM_GetUsers,
      IAM_GetRoles, IAM_GetPolicies, VPC_GetVPCs, VPC_GetSecurityGroups]"

text \<open>
  A goroutine sends exactly one message: its resources on \<open>resourceChan\<close>, or its
  wrapped error on \<open>errorChan\<close>. Both channels are buffered for 25 messages and at most
  nine are sent, so no send blocks, and each channel delivers its messages in the order
  they were sent. A channel is the queue of its messages; \<open>runGoroutines\<close> fills the two
  queues for goroutines that reach their send in the order \<open>sched\<close>.
\<close>

fun runGoroutines ::
  "Services \<Rightarrow> ResourceFilters \<Rightarrow> collector list \<Rightarrow> Resource list list \<times> err list" where
  "runGoroutines svc filters [] = ([], [])"
| "runGoroutines svc filters (c # sched) =
     (let (resourceChan, errorChan) = runGoroutines svc filters sched in
      case collect svc c filters of
        Inl e \<Rightarrow> (resourceChan, CollectorFailed (failureMessage c) e # errorChan)
      | Inr resources \<Rightarrow> (resources # resourceChan, errorChan))"

text \<open>
  The receiving loop. Its \<open>select\<close> takes a message from whichever channel is ready;
  when both are, the runtime chooses, and \<open>choices\<close> is the list of those choices
  (\<open>True\<close> for \<open>resourceChan\<close>; when the list runs out, \<open>resourceChan\<close>). A channel
  that is drained and closed is set to nil; the loop ends when both are nil.
\<close>

fun selectResource :: "bool list \<Rightarrow> bool" where
  "selectResource [] = True"
| "selectResource (b # bs) = b"

fun collectResults ::
  "bool list \<Rightarrow> Resource list list \<Rightarrow> err list \<Rightarrow> Resource list \<Rightarrow> err list
     \<Rightarrow> Resource list \<times> err list" where
  "collectResults choices [] [] allResources errors = (allResources, errors)"
| "collectResults choices (resources # resourceChan) [] allResources errors =
     collectResults (tl choices) resourceChan [] (allResources @ resources) errors"
| "collectResults choices [] (e # errorChan) allResources errors =
     collectResults (tl choices) [] errorChan allResources (errors @ [e])"
| "collectResults choices (resources # resourceChan) (e # errorChan) allResources errors =
     (if selectResource choices
        then collectResults (tl choices) resourceChan (e # errorChan)
               (allResources @ resources) errors
      else collectResults (tl choices) (resources # resourceChan) errorChan
               allResources (errors @ [e]))"

definition GetResources ::
  "AWSProvider \<Rightarrow> Services \<Rightarrow> collector list \<Rightarrow> bool list \<Rightarrow> ResourceFilters
     \<Rightarrow> (err + Resource list) \<times> effects" where
  "GetResources p svc sched choices filters =
     (if \<not> IsAuthenticated p then (Inl NotAuthenticated, noEffects)
      else
        let (resourceChan, errorChan) = runGoroutines svc filters sched;
            (allResources, errors) = collectResults choices resourceChan errorChan [] []
        in (Inr allResources, \<lparr> calls = map Collect sched, warnings = errors \<rparr>))"

definition collectorOfType :: "string \<Rightarrow> collector option" where
  "collectorOfType resourceType =
     (if resourceType \<in> set [''ec2'', ''virtual_machine'', ''instance'']
        then Some EC2_GetInstances
      else if resourceType \<in> set [''s3'', ''bucket'', ''object_storage'']
        then Some S3_GetBuckets
      else if resourceType \<in> set [''rds'', ''rds_instance'', ''database'', ''postgres'',
                                    ''postgresql'', ''mysql'']
        then Some RDS_GetDatabases
      else if resourceType \<in> set [''rds_cluster'', ''aurora'', ''cluster'']
        then Some RDS_GetClusters
      else if resourceType \<in> set [''iam'', ''iam_user'', ''user'']
        then Some IAM_GetUsers
      else if resourceType \<in> set [''iam_role'', ''role'']
        then Some IAM_GetRoles
      else if resourceType \<in> set [''iam_policy'', ''policy'']
        then Some IAM_GetPolicies
      else if resourceType \<in> set [''vpc'', ''network'']
        then Some VPC_GetVPCs
      else if resourceType \<in> set [''security_group'', ''firewall'', ''sg'']
        then Some VPC_GetSecurityGroups
      else None)"

definition GetResourcesByType ::
  "AWSProvider \<Rightarrow> Services \<Rightarrow> string \<Rightarrow> ResourceFilters
     \<Rightarrow> (err + Resource list) \<times> effects" where
  "GetResourcesByType p svc resourceType filters =
     (if \<not> IsAuthenticated p then (Inl NotAuthenticated, noEffects)
      else case collectorOfType resourceType of
             Some c \<Rightarrow> (collect svc c filters, \<lparr> calls = [Collect c], warnings = [] \<rparr>)
           | None \<Rightarrow> (Inl (UnsupportedResourceType resourceType), noEffects))"

definition GetResourceStatus ::
  "AWSProvider \<Rightarrow> Services \<Rightarrow> string \<Rightarrow> (err + ResourceStatus) \<times> effects" where
  "GetResourceStatus p svc resourceID =
     (if \<not> IsAuthenticated p then (Inl NotAuthenticated, noEffects)
      else case GetInstanceStatus svc resourceID of
             Inr status \<Rightarrow>
               (Inr status, \<lparr> calls = [InstanceStatus resourceID], warnings = [] \<rparr>)
           | Inl e1 \<Rightarrow>
               (case GetBucketStatus svc resourceID of
                  Inr status \<Rightarrow>
                    (Inr status,
                     \<lparr> calls = [InstanceStatus resourceID, BucketStatus resourceID],
                       warnings = [] \<rparr>)
                | Inl e2 \<Rightarrow>
                    (Inl (ResourceNotFound resourceID),
                     \<lparr> calls = [InstanceStatus resourceID, BucketStatus resourceID],
                       warnings = [] \<rparr>)))"

section \<open>The plugin registry (pkg/providers/registry.go)\<close>

text \<open>
  A registered value is anything that implements the \<open>CloudProvider\<close> interface: the
  AWS provider, whose \<open>Name\<close> is \<open>aws\<close>, or another implementation with a name of its
  own (the test double, for one). A nil interface value is \<open>None\<close>.
\<close>

datatype CloudProvider = AWSImpl AWSProvider | OtherImpl string

fun ProviderName :: "CloudProvider \<Rightarrow> string" where
  "ProviderName (AWSImpl p) = ''aws''"
| "ProviderName (OtherImpl name) = name"

text \<open>
  The registry's map is the list of its entries, each key once, in the order a range
  over the map yields them. A lookup is \<open>map_of\<close>; an insertion under a key that is
  absent adds one entry.
\<close>

record PluginRegistry =
  providers :: "(string \<times> CloudProvider) list"

definition NewPluginRegistry :: PluginRegistry where
  "NewPluginRegistry = \<lparr> providers = [] \<rparr>"

definition Register :: "CloudProvider option \<Rightarrow> PluginRegistry \<Rightarrow> PluginRegistry \<times> err option" where
  "Register provider r =
     (case provider of
        None \<Rightarrow> (r, Some ProviderNil)
      | Some pr \<Rightarrow>
          let name = ProviderName pr in
          if name = '''' then (r, Some ProviderNameEmpty)
          else if map_of (providers r) name \<noteq> None
            then (r, Some (ProviderAlreadyRegistered name))
          else (r\<lparr> providers := providers r @ [(name, pr)] \<rparr>, None))"

definition Unregister :: "string \<Rightarrow> PluginRegistry \<Rightarrow> PluginRegistry \<times> err option" where
  "Unregister name r =
     (if map_of (providers r) name = None then (r, Some (ProviderNotFound name))
      else (r\<lparr> providers := filter (\<lambda>(k, v). k \<noteq> name) (providers r) \<rparr>, None))"

definition Get :: "PluginRegistry \<Rightarrow> string \<Rightarrow> err + CloudProvider" where
  "Get r name =
     (case map_of (providers r) name of
        None \<Rightarrow> Inl (ProviderNotFound name)
      | Some provider \<Rightarrow> Inr provider)"

definition Exists :: "PluginRegistry \<Rightarrow> string \<Rightarrow> bool" where
  "Exists r name = (map_of (providers r) name \<noteq> None)"

text \<open>
  \<open>List\<close> gathers the keys in range order and sorts them with \<open>sort.Strings\<close>, the
  ascending order of Go's \<open><\<close> on strings: bytewise lexicographic, which is the order
  of \<open>char list\<close>. The sorted arrangement of a list of strings is unique, so any sorting
  function stands for it.
\<close>

definition List :: "PluginRegistry \<Rightarrow> string list" where
  "List r = (let names = map fst (providers r) in sort names)"

section \<open>Concrete values\<close>

text \<open>
  The alias table of \<open>GetResourceTypeFromString\<close>, read off its switch: each canonical
  kind with the strings its case lists.
\<close>

definition aliasTable :: "(ResourceType \<times> string list) list" where
  "aliasTable =
     [(ResourceTypeVirtualMachine,
         [''virtual_machine'', ''vm'', ''ec2'', ''compute_engine'', ''virtual_machines'']),
      (ResourceTypeContainer, [''container'', ''containers'', ''ecs'', ''gke'', ''aci'']),
      (ResourceTypeFunction,
         [''function'', ''functions'', ''lambda'', ''cloud_functions'', ''azure_functions'']),
      (ResourceTypeCluster, [''cluster'', ''clusters'', ''eks'', ''gke_cluster'', ''aks'']),
      (ResourceTypeObjectStorage, [''object_storage'', ''s3'', ''gcs'', ''blob_storage'']),
      (ResourceTypeBlockStorage,
         [''block_storage'', ''ebs'', ''persistent_disk'', ''managed_disk'']),
      (ResourceTypeFileStorage, [''file_storage'', ''efs'', ''filestore'', ''azure_files'']),
      (ResourceTypeDatabase,
         [''database'', ''databases'', ''rds'', ''cloud_sql'', ''cosmos_db'']),
      (ResourceTypeVPC, [''vpc'', ''network'', ''vnet'']),
      (ResourceTypeSubnet, [''subnet'', ''subnets'']),
      (ResourceTypeLoadBalancer, [''load_balancer'', ''lb'', ''elb'', ''alb'', ''nlb'']),
      (ResourceTypeSecurityGroup, [''security_group'', ''firewall'', ''nsg'']),
      (ResourceTypeGateway, [''gateway'', ''nat_gateway'', ''internet_gateway'']),
      (ResourceTypeUser, [''user'', ''users'']),
      (ResourceTypeRole, [''role'', ''roles'']),
      (ResourceTypePolicy, [''policy'', ''policies'']),
      (ResourceTypeSecret, [''secret'', ''secrets'']),
      (ResourceTypeMetric, [''metric'', ''metrics'']),
      (ResourceTypeAlarm, [''alarm'', ''alarms'', ''alert'']),
      (ResourceTypeDashboard, [''dashboard'', ''dashboards''])]"

text \<open>Every string some case of the switch lists: the canonical names and their aliases.\<close>

definition recognizedKindStrings :: "string list" where
  "recognizedKindStrings = concat (map snd aliasTable)"

text \<open>The instant 2024-01-10T00:00:00Z, in nanoseconds since the epoch.\<close>

definition jan10 :: time where
  "jan10 = 1704844800000000000"

definition exampleInstance :: Resource where
  "exampleInstance =
     \<lparr> ID = ''i-1'', Name = ''web-server-01'', Type = ''virtual_machine'',
       Provider = ''aws'', Region = ''us-east-1'',
       Status = \<lparr> State = ''running'', Health = ''healthy'', LastChecked = jan10 \<rparr>,
       Tags = [''Env'' \<mapsto> ''prod''], CreatedAt = jan10, UpdatedAt = jan10 \<rparr>"

definition exampleBucket :: Resource where
  "exampleBucket =
     \<lparr> ID = ''logs'', Name = ''logs'', Type = ''object_storage'',
       Provider = ''aws'', Region = ''us-east-1'',
       Status = \<lparr> State = ''available'', Health = ''healthy'', LastChecked = jan10 \<rparr>,
       Tags = Map.empty, CreatedAt = jan10, UpdatedAt = jan10 \<rparr>"

definition exampleUser :: Resource where
  "exampleUser =
     \<lparr> ID = ''alice'', Name = ''alice'', Type = ''iam_user'',
       Provider = ''aws'', Region = ''global'',
       Status = \<lparr> State = ''active'', Health = ''healthy'', LastChecked = jan10 \<rparr>,
       Tags = Map.empty, CreatedAt = jan10, UpdatedAt = jan10 \<rparr>"

definition exampleDatabase :: Resource where
  "exampleDatabase =
     \<lparr> ID = ''orders'', Name = ''orders'', Type = ''rds_instance'',
       Provider = ''aws'', Region = ''us-east-1'',
       Status = \<lparr> State = ''available'', Health = ''healthy'', LastChecked = jan10 \<rparr>,
       Tags = Map.empty, CreatedAt = jan10, UpdatedAt = jan10 \<rparr>"

definition exampleConfig :: AWSConfig where
  "exampleConfig =
     \<lparr> cfg_Enabled = True, cfg_Regions = [], cfg_Profile = ''default'',
       cfg_Region = ''eu-west-1'', cfg_AccessKeyID = [], cfg_SecretAccessKey = [],
       cfg_SessionToken = [], cfg_RoleARN = [], cfg_ExternalID = [], cfg_MFASerial = [],
       cfg_DurationSeconds = 0 \<rparr>"

text \<open>An authenticator that rejects the credentials, and one that accepts them.\<close>

definition rejectingAuthenticator :: Authenticator where
  "rejectingAuthenticator =
     \<lparr> auth_Authenticate = (\<lambda>c. Inl (External ''no valid credentials'')),
       auth_ValidateCredentials = (\<lambda>c. Inl (External ''no valid credentials'')) \<rparr>"

definition acceptingAuthenticator :: Authenticator where
  "acceptingAuthenticator =
     \<lparr> auth_Authenticate = (\<lambda>c. Inr ''sdk-config''),
       auth_ValidateCredentials = (\<lambda>c. Inr ''arn:aws:iam::123456789012:user/alice'') \<rparr>"

definition freshProvider :: AWSProvider where
  "freshProvider =
     \<lparr> config = exampleConfig, awsConfig = None, services = None, authenticated = False \<rparr>"

definition authenticatedProvider :: AWSProvider where
  "authenticatedProvider =
     \<lparr> config = exampleConfig, awsConfig = Some ''sdk-config'',
       services = Some exampleConfig, authenticated = True \<rparr>"

text \<open>
  Services where listing the buckets is denied, the instance and the user collectors
  each return one resource, and the others return nothing.
\<close>

definition exampleServices :: Services where
  "exampleServices =
     \<lparr> collect = (\<lambda>c filters.
         if c = S3_GetBuckets then Inl (External ''AccessDenied'')
         else if c = EC2_GetInstances then Inr [exampleInstance]
         else if c = IAM_GetUsers then Inr [exampleUser]
         else Inr []),
       GetInstanceStatus = (\<lambda>resourceID.
         if resourceID = ''i-1'' then Inr (Status exampleInstance)
         else Inl (External ''not found'')),
       GetBucketStatus = (\<lambda>resourceID. Inl (External ''not found'')) \<rparr>"

definition exampleRegistry :: PluginRegistry where
  "exampleRegistry =
     \<lparr> providers = [(''gcp'', OtherImpl ''gcp''), (''aws'', AWSImpl authenticatedProvider),
                     (''azure'', OtherImpl ''azure'')] \<rparr>"

section \<open>Notions used to state the properties\<close>

text \<open>
  A filter set with both creation bounds removed, and the closed creation window: the
  bounds themselves belong to the window.
\<close>

definition withoutWindow :: "ResourceFilters \<Rightarrow> ResourceFilters" where
  "withoutWindow filters = filters\<lparr> CreatedAfter := None, CreatedBefore := None \<rparr>"

definition inClosedWindow :: "Resource \<Rightarrow> ResourceFilters \<Rightarrow> bool" where
  "inClosedWindow resource filters =
     ((case CreatedAfter filters of None \<Rightarrow> True | Some t \<Rightarrow> t \<le> CreatedAt resource) \<and>
      (case CreatedBefore filters of None \<Rightarrow> True | Some t \<Rightarrow> CreatedAt resource \<le> t))"

text \<open>The resource lists of the collectors that succeeded, in the order of the schedule.\<close>

fun succeeded :: "Services \<Rightarrow> ResourceFilters \<Rightarrow> collector list \<Rightarrow> Resource list list" where
  "succeeded svc filters [] = []"
| "succeeded svc filters (c # sched) =
     (case collect svc c filters of
        Inl e \<Rightarrow> succeeded svc filters sched
      | Inr resources \<Rightarrow> resources # succeeded svc filters sched)"

text \<open>The representation invariant of the registry's map: no key occurs twice.\<close>

definition uniqueKeys :: "PluginRegistry \<Rightarrow> bool" where
  "uniqueKeys r = distinct (map fst (providers r))"

section \<open>Properties\<close>

lemmas ResourceType_defs =
  ResourceTypeVirtualMachine_def ResourceTypeContainer_def ResourceTypeFunction_def
  ResourceTypeCluster_def ResourceTypeObjectStorage_def ResourceTypeBlockStorage_def
  ResourceTypeFileStorage_def ResourceTypeDatabase_def ResourceTypeVPC_def
  ResourceTypeSubnet_def ResourceTypeLoadBalancer_def ResourceTypeSecurityGroup_def
  ResourceTypeGateway_def ResourceTypeUser_def ResourceTypeRole_def ResourceTypePolicy_def
  ResourceTypeSecret_def ResourceTypeMetric_def ResourceTypeAlarm_def
  ResourceTypeDashboard_def ResourceTypeUnknown_def

lemmas InstanceStateName_defs =
  InstanceStateNamePending_def InstanceStateNameRunning_def
  InstanceStateNameShuttingDown_def InstanceStateNameTerminated_def
  InstanceStateNameStopping_def InstanceStateNameStopped_def

lemmas Health_defs = HealthHealthy_def HealthUnhealthy_def HealthWarning_def HealthUnknown_def

lemmas matchesFilters_defs =
  EC2_matchesFilters_def S3_matchesFilters_def RDS_matchesFilters_def
  IAM_matchesFilters_def VPC_matchesFilters_def

subsection \<open>The filter predicates\<close>

text \<open>
  C8. With the empty filter set (no regions, no kinds, no tags, no statuses, no creation
  bounds) the predicate of every collector accepts every resource.
\<close>

theorem empty_filters_match_every_resource:
  "EC2_matchesFilters r emptyFilters \<and> S3_matchesFilters r emptyFilters \<and>
   RDS_matchesFilters r emptyFilters \<and> IAM_matchesFilters r emptyFilters \<and>
   VPC_matchesFilters r emptyFilters"
  by (simp add: matchesFilters_defs emptyFilters_def tagsMatch_def)

theorem empty_filters_match_every_resource_witness:
  "EC2_matchesFilters exampleInstance emptyFilters \<and> S3_matchesFilters exampleBucket emptyFilters"
  using empty_filters_match_every_resource [of exampleInstance]
        empty_filters_match_every_resource [of exampleBucket]
  by simp

text \<open>
  C2, as stated: a resource whose creation time equals the \<open>created_after\<close> bound (or
  the \<open>created_before\<close> bound) is excluded. It is not: the instance and the bucket
  created at 2024-01-10T00:00:00Z pass a filter whose bound is that very instant.
\<close>

theorem created_after_boundary_counterexample:
  "CreatedAt exampleInstance = jan10 \<and>
   EC2_matchesFilters exampleInstance (emptyFilters\<lparr> CreatedAfter := Some jan10 \<rparr>) \<and>
   CreatedAt exampleBucket = jan10 \<and>
   S3_matchesFilters exampleBucket (emptyFilters\<lparr> CreatedAfter := Some jan10 \<rparr>) \<and>
   S3_matchesFilters exampleBucket (emptyFilters\<lparr> CreatedBefore := Some jan10 \<rparr>)"
  by (simp add: matchesFilters_defs emptyFilters_def tagsMatch_def exampleInstance_def
        exampleBucket_def Before_def After_def)

text \<open>
  C2, amended. In the four predicates that look at the creation time, the creation
  clause is the closed window: a resource is rejected when it was created strictly
  before \<open>created_after\<close> or strictly after \<open>created_before\<close>, and a resource created
  exactly at a bound is kept. The predicate holds exactly when the resource lies in the
  closed window and passes the same filters without the two bounds.
\<close>

theorem creation_window_is_closed:
  "(EC2_matchesFilters r f \<longleftrightarrow> EC2_matchesFilters r (withoutWindow f) \<and> inClosedWindow r f) \<and>
   (S3_matchesFilters r f \<longleftrightarrow> S3_matchesFilters r (withoutWindow f) \<and> inClosedWindow r f) \<and>
   (RDS_matchesFilters r f \<longleftrightarrow> RDS_matchesFilters r (withoutWindow f) \<and> inClosedWindow r f) \<and>
   (IAM_matchesFilters r f \<longleftrightarrow> IAM_matchesFilters r (withoutWindow f) \<and> inClosedWindow r f)"
  by (auto simp add: matchesFilters_defs withoutWindow_def inClosedWindow_def Before_def After_def
        split: option.splits)

theorem creation_window_is_closed_witness:
  "S3_matchesFilters exampleBucket (emptyFilters\<lparr> CreatedAfter := Some jan10 \<rparr>) \<and>
   \<not> S3_matchesFilters exampleBucket (emptyFilters\<lparr> CreatedAfter := Some (jan10 + 1) \<rparr>) \<and>
   \<not> EC2_matchesFilters exampleInstance (emptyFilters\<lparr> CreatedBefore := Some (jan10 - 1) \<rparr>)"
  using creation_window_is_closed [of exampleBucket "emptyFilters\<lparr> CreatedAfter := Some jan10 \<rparr>"]
        creation_window_is_closed [of exampleBucket "emptyFilters\<lparr> CreatedAfter := Some (jan10 + 1) \<rparr>"]
        creation_window_is_closed [of exampleInstance "emptyFilters\<lparr> CreatedBefore := Some (jan10 - 1) \<rparr>"]
  by (simp add: inClosedWindow_def withoutWindow_def emptyFilters_def exampleBucket_def
        exampleInstance_def matchesFilters_defs tagsMatch_def)

text \<open>
  C3. The predicates of the S3, IAM and RDS collectors have no status clause: with the
  status filter \<open>stopped\<close>, a bucket and a database in state \<open>available\<close> and a user
  in state \<open>active\<close> are all accepted.
\<close>

theorem status_filter_ignored:
  "State (Status exampleBucket) \<notin> set [''stopped''] \<and>
   S3_matchesFilters exampleBucket (emptyFilters\<lparr> f_Status := [''stopped''] \<rparr>) \<and>
   State (Status exampleUser) \<notin> set [''stopped''] \<and>
   IAM_matchesFilters exampleUser (emptyFilters\<lparr> f_Status := [''stopped''] \<rparr>) \<and>
   State (Status exampleDatabase) \<notin> set [''stopped''] \<and>
   RDS_matchesFilters exampleDatabase (emptyFilters\<lparr> f_Status := [''stopped''] \<rparr>)"
  by (simp add: matchesFilters_defs emptyFilters_def tagsMatch_def exampleBucket_def
        exampleUser_def exampleDatabase_def)

subsection \<open>The provider\<close>

text \<open>
  The service objects exist whenever the provider is authenticated: this holds of a new
  provider and \<open>Authenticate\<close> keeps it, so an authenticated \<open>GetResources\<close> never
  calls through a nil service pointer.
\<close>

lemma NewAWSProvider_services:
  "NewAWSProvider cfg = Inr p \<Longrightarrow> authenticated p \<longrightarrow> services p \<noteq> None"
  by (auto simp add: NewAWSProvider_def split: option.splits)

lemma Authenticate_services:
  assumes "authenticated p \<longrightarrow> services p \<noteq> None"
    and "Authenticate authenticator pc p = (p', r)"
  shows "authenticated p' \<longrightarrow> services p' \<noteq> None"
  using assms
  by (auto simp add: Authenticate_def initializeServices_def Let_def
        split: ProviderConfig.splits sum.splits)

lemma fst_runGoroutines: "fst (runGoroutines svc filters sched) = succeeded svc filters sched"
  by (induction sched) (auto split: sum.splits prod.splits)

lemma collectResults_eq:
  "collectResults choices resourceChan errorChan allResources errors =
     (allResources @ concat resourceChan, errors @ errorChan)"
  by (induction choices resourceChan errorChan allResources errors rule: collectResults.induct) auto

text \<open>
  C1. On an authenticated provider, whatever the collectors return, in whatever order
  the goroutines finish and whatever the receiving loop selects, \<open>GetResources\<close> returns
  a nil error together with the concatenation of the resource lists of the collectors
  that succeeded; the error of a collector that failed is not the error of the call.
\<close>

theorem collector_failure_not_propagated:
  assumes "IsAuthenticated p"
  shows "fst (GetResources p svc sched choices filters) =
           Inr (concat (succeeded svc filters sched))"
  using assms
  by (simp add: GetResources_def collectResults_eq fst_runGoroutines [symmetric] split: prod.splits)

theorem collector_failure_not_propagated_witness:
  "IsAuthenticated authenticatedProvider \<and>
   collect exampleServices S3_GetBuckets emptyFilters = Inl (External ''AccessDenied'') \<and>
   fst (GetResources authenticatedProvider exampleServices
          [IAM_GetUsers, S3_GetBuckets, EC2_GetInstances, RDS_GetDatabases, RDS_GetClusters,
           IAM_GetRoles, IAM_GetPolicies, VPC_GetVPCs, VPC_GetSecurityGroups]
          [False, True] emptyFilters) = Inr [exampleUser, exampleInstance]"
  using collector_failure_not_propagated [of authenticatedProvider exampleServices
          "[IAM_GetUsers, S3_GetBuckets, EC2_GetInstances, RDS_GetDatabases, RDS_GetClusters,
           IAM_GetRoles, IAM_GetPolicies, VPC_GetVPCs, VPC_GetSecurityGroups]"
          "[False, True]" emptyFilters]
  by (simp add: IsAuthenticated_def authenticatedProvider_def exampleServices_def)

text \<open>
  C4, as stated: once an authentication has failed, every later call returns the
  not-authenticated error before any collector is dispatched. It does not when the
  provider was authenticated before and the failure is the rejection of the
  configuration's type: \<open>Authenticate\<close> returns that error before it touches the
  provider, which stays authenticated, and \<open>GetResources\<close> then returns a nil error
  and calls all nine collectors.
\<close>

theorem failed_reauthentication_counterexample:
  "Authenticate acceptingAuthenticator (AWS exampleConfig) freshProvider =
     (authenticatedProvider, None) \<and>
   Authenticate acceptingAuthenticator NotAWS authenticatedProvider =
     (authenticatedProvider, Some InvalidConfigType) \<and>
   IsAuthenticated authenticatedProvider \<and>
   fst (GetResources authenticatedProvider exampleServices goroutines [] emptyFilters) =
     Inr [exampleInstance, exampleUser] \<and>
   calls (snd (GetResources authenticatedProvider exampleServices goroutines [] emptyFilters)) =
     map Collect goroutines"
  by (simp add: Authenticate_def initializeServices_def acceptingAuthenticator_def
        freshProvider_def authenticatedProvider_def IsAuthenticated_def GetResources_def
        goroutines_def exampleServices_def Let_def)

text \<open>
  C4, amended. On a provider that is not authenticated, \<open>GetResources\<close>,
  \<open>GetResourcesByType\<close> and \<open>GetResourceStatus\<close> return the not-authenticated error
  and make no service call at all. A provider is in that state when it has just been
  constructed, and after an \<open>Authenticate\<close> that returned an error, with one
  exception: the rejection of the configuration's type returns before the provider is
  touched and leaves it as it was, so it leaves a provider unauthenticated only if it was
  unauthenticated before.
\<close>

theorem unauthenticated_calls_fail_fast:
  "(\<not> IsAuthenticated p \<longrightarrow>
      GetResources p svc sched choices filters = (Inl NotAuthenticated, noEffects) \<and>
      GetResourcesByType p svc resourceType filters = (Inl NotAuthenticated, noEffects) \<and>
      GetResourceStatus p svc resourceID = (Inl NotAuthenticated, noEffects)) \<and>
   (NewAWSProvider cfg = Inr p0 \<longrightarrow> \<not> IsAuthenticated p0) \<and>
   (Authenticate authenticator pc p1 = (p2, Some e) \<and>
      (\<not> IsAuthenticated p1 \<or> e \<noteq> InvalidConfigType) \<longrightarrow> \<not> IsAuthenticated p2) \<and>
   Authenticate authenticator NotAWS p1 = (p1, Some InvalidConfigType)"
  by (auto simp add: GetResources_def GetResourcesByType_def GetResourceStatus_def
        NewAWSProvider_def Authenticate_def initializeServices_def IsAuthenticated_def Let_def
        split: option.splits ProviderConfig.splits sum.splits)

theorem unauthenticated_calls_fail_fast_witness:
  "NewAWSProvider (Some exampleConfig) = Inr freshProvider \<and>
   \<not> IsAuthenticated freshProvider \<and>
   snd (Authenticate rejectingAuthenticator (AWS exampleConfig) freshProvider) =
     Some (AuthenticationFailed (External ''no valid credentials'')) \<and>
   (let p = fst (Authenticate rejectingAuthenticator (AWS exampleConfig) freshProvider) in
      \<not> IsAuthenticated p \<and>
      GetResources p exampleServices goroutines [] emptyFilters = (Inl NotAuthenticated, noEffects) \<and>
      GetResourcesByType p exampleServices ''ec2'' emptyFilters = (Inl NotAuthenticated, noEffects) \<and>
      GetResourceStatus p exampleServices ''i-1'' = (Inl NotAuthenticated, noEffects))"
  using unauthenticated_calls_fail_fast [where
          p = "fst (Authenticate rejectingAuthenticator (AWS exampleConfig) freshProvider)"
          and svc = exampleServices and sched = goroutines and choices = "[]"
          and filters = emptyFilters and resourceType = "''ec2''" and resourceID = "''i-1''"
          and cfg = "Some exampleConfig" and ?p0.0 = freshProvider
          and authenticator = rejectingAuthenticator and pc = "AWS exampleConfig"
          and ?p1.0 = freshProvider
          and ?p2.0 = "fst (Authenticate rejectingAuthenticator (AWS exampleConfig) freshProvider)"
          and e = "AuthenticationFailed (External ''no valid credentials'')"]
  by (simp add: NewAWSProvider_def freshProvider_def Authenticate_def rejectingAuthenticator_def
        IsAuthenticated_def Let_def)

subsection \<open>Region resolution\<close>

text \<open>
  C5. \<open>getRegionsToQuery\<close> is the four-step fallback chain: the filter's regions if
  there are any; otherwise the configuration's region list if it is not empty; otherwise
  the configuration's single region if it is not the empty string; otherwise exactly
  \<open>us-east-1\<close>. The EC2, RDS and VPC services resolve regions alike.
\<close>

theorem region_fallback_chain:
  "(filterRegions \<noteq> [] \<longrightarrow> EC2_getRegionsToQuery c filterRegions = filterRegions) \<and>
   (filterRegions = [] \<and> cfg_Regions c \<noteq> [] \<longrightarrow>
      EC2_getRegionsToQuery c filterRegions = cfg_Regions c) \<and>
   (filterRegions = [] \<and> cfg_Regions c = [] \<and> cfg_Region c \<noteq> [] \<longrightarrow>
      EC2_getRegionsToQuery c filterRegions = [cfg_Region c]) \<and>
   (filterRegions = [] \<and> cfg_Regions c = [] \<and> cfg_Region c = [] \<longrightarrow>
      EC2_getRegionsToQuery c filterRegions = [''us-east-1'']) \<and>
   RDS_getRegionsToQuery c filterRegions = EC2_getRegionsToQuery c filterRegions \<and>
   VPC_getRegionsToQuery c filterRegions = EC2_getRegionsToQuery c filterRegions"
  by (simp add: EC2_getRegionsToQuery_def RDS_getRegionsToQuery_def VPC_getRegionsToQuery_def
        GetRegions_def)

theorem region_fallback_chain_witness:
  "EC2_getRegionsToQuery exampleConfig [''us-west-2'', ''eu-west-1''] = [''us-west-2'', ''eu-west-1''] \<and>
   EC2_getRegionsToQuery (exampleConfig\<lparr> cfg_Regions := [''ap-south-1''] \<rparr>) [] = [''ap-south-1''] \<and>
   RDS_getRegionsToQuery (exampleConfig\<lparr> cfg_Region := ''x'' \<rparr>) [] = [''x''] \<and>
   RDS_getRegionsToQuery (exampleConfig\<lparr> cfg_Region := [] \<rparr>) [] = [''us-east-1'']"
  using region_fallback_chain [of "[''us-west-2'', ''eu-west-1'']" exampleConfig]
        region_fallback_chain [of "[]" "exampleConfig\<lparr> cfg_Regions := [''ap-south-1''] \<rparr>"]
        region_fallback_chain [of "[]" "exampleConfig\<lparr> cfg_Region := ''x'' \<rparr>"]
        region_fallback_chain [of "[]" "exampleConfig\<lparr> cfg_Region := [] \<rparr>"]
  by (simp add: exampleConfig_def)

subsection \<open>Kind and health normalisation\<close>

lemma canonical_fixed: "\<forall>k \<in> set canonicalKinds. GetResourceTypeFromString k = k"
  by (simp add: canonicalKinds_def GetResourceTypeFromString_def ResourceType_defs)

lemma normal_canonical: "GetResourceTypeFromString s \<in> set canonicalKinds"
  by (simp add: GetResourceTypeFromString_def canonicalKinds_def)

lemma alias_table_correct:
  "\<forall>(k, aliases) \<in> set aliasTable. \<forall>a \<in> set aliases. GetResourceTypeFromString a = k"
  by (simp add: aliasTable_def GetResourceTypeFromString_def ResourceType_defs)

lemma unrecognized_unknown:
  "s \<notin> set recognizedKindStrings \<Longrightarrow> GetResourceTypeFromString s = ResourceTypeUnknown"
  by (simp add: recognizedKindStrings_def aliasTable_def GetResourceTypeFromString_def)

text \<open>
  C6. \<open>GetResourceTypeFromString\<close> fixes every canonical kind and is idempotent; every
  alias of the table goes to the canonical kind of its row (\<open>ec2\<close>, \<open>vm\<close> and
  \<open>virtual_machines\<close> to \<open>virtual_machine\<close>); its result is always one of the canonical
  kinds; and a string that no case of the switch lists goes to \<open>unknown\<close>.
\<close>

theorem kind_normalization:
  "(\<forall>k \<in> set canonicalKinds. GetResourceTypeFromString k = k) \<and>
   GetResourceTypeFromString (GetResourceTypeFromString s) = GetResourceTypeFromString s \<and>
   (\<forall>(k, aliases) \<in> set aliasTable. \<forall>a \<in> set aliases. GetResourceTypeFromString a = k) \<and>
   GetResourceTypeFromString ''ec2'' = ''virtual_machine'' \<and>
   GetResourceTypeFromString ''vm'' = ''virtual_machine'' \<and>
   GetResourceTypeFromString ''virtual_machines'' = ''virtual_machine'' \<and>
   GetResourceTypeFromString s \<in> set canonicalKinds \<and>
   (s \<notin> set recognizedKindStrings \<longrightarrow> GetResourceTypeFromString s = ''unknown'')"
proof -
  have idem: "GetResourceTypeFromString (GetResourceTypeFromString s) = GetResourceTypeFromString s"
    using canonical_fixed normal_canonical by blast
  have vm: "GetResourceTypeFromString ''ec2'' = ''virtual_machine''"
    "GetResourceTypeFromString ''vm'' = ''virtual_machine''"
    "GetResourceTypeFromString ''virtual_machines'' = ''virtual_machine''"
    by (simp_all add: GetResourceTypeFromString_def ResourceTypeVirtualMachine_def)
  have unk: "s \<notin> set recognizedKindStrings \<longrightarrow> GetResourceTypeFromString s = ''unknown''"
    using unrecognized_unknown [of s] by (simp add: ResourceTypeUnknown_def)
  from canonical_fixed idem alias_table_correct vm normal_canonical unk show ?thesis
    by blast
qed

theorem kind_normalization_witness:
  "''iam_user'' \<notin> set recognizedKindStrings \<and>
   GetResourceTypeFromString ''iam_user'' = ''unknown'' \<and>
   ''database'' \<in> set canonicalKinds \<and>
   GetResourceTypeFromString ''database'' = ''database'' \<and>
   (''database'', [''database'', ''databases'', ''rds'', ''cloud_sql'', ''cosmos_db''])
     \<in> set aliasTable \<and>
   GetResourceTypeFromString ''rds'' = ''database'' \<and>
   GetResourceTypeFromString (GetResourceTypeFromString ''rds'') = GetResourceTypeFromString ''rds''"
proof -
  have a: "''iam_user'' \<notin> set recognizedKindStrings"
    by (simp add: recognizedKindStrings_def aliasTable_def)
  have b: "''database'' \<in> set canonicalKinds"
    by (simp add: canonicalKinds_def ResourceType_defs)
  have c: "(''database'', [''database'', ''databases'', ''rds'', ''cloud_sql'', ''cosmos_db''])
             \<in> set aliasTable"
    by (simp add: aliasTable_def ResourceType_defs)
  have d: "''rds'' \<in> set [''database'', ''databases'', ''rds'', ''cloud_sql'', ''cosmos_db'']"
    by simp
  from kind_normalization [of "''iam_user''"] a
  have e: "GetResourceTypeFromString ''iam_user'' = ''unknown''" by blast
  from kind_normalization [of "''rds''"] b
  have f: "GetResourceTypeFromString ''database'' = ''database''" by blast
  from kind_normalization [of "''rds''"] c d
  have g: "GetResourceTypeFromString ''rds'' = ''database''" by blast
  from kind_normalization [of "''rds''"]
  have h: "GetResourceTypeFromString (GetResourceTypeFromString ''rds'') =
             GetResourceTypeFromString ''rds''" by blast
  from a b c e f g h show ?thesis by blast
qed

text \<open>
  C7. The health of an EC2 instance is a function of its state: \<open>running\<close> is healthy,
  \<open>stopped\<close> unhealthy, \<open>pending\<close> a warning, and a state the switch has no case for
  is unknown.
\<close>

theorem instance_health_mapping:
  "mapInstanceHealthToHealth ''running'' = ''healthy'' \<and>
   mapInstanceHealthToHealth ''stopped'' = ''unhealthy'' \<and>
   mapInstanceHealthToHealth ''pending'' = ''warning'' \<and>
   (state \<notin> set instanceStateTable \<longrightarrow> mapInstanceHealthToHealth state = ''unknown'')"
  by (simp add: mapInstanceHealthToHealth_def instanceStateTable_def InstanceStateName_defs
        Health_defs)

theorem instance_health_mapping_witness:
  "''rebooting'' \<notin> set instanceStateTable \<and> mapInstanceHealthToHealth ''rebooting'' = ''unknown'' \<and>
   ''Running'' \<notin> set instanceStateTable \<and> mapInstanceHealthToHealth ''Running'' = ''unknown''"
  using instance_health_mapping [of "''rebooting''"] instance_health_mapping [of "''Running''"]
  by (simp add: instanceStateTable_def InstanceStateName_defs)

subsection \<open>The registry\<close>

lemma map_add_fresh: "m k = None \<Longrightarrow> [k \<mapsto> v] ++ m = m(k \<mapsto> v)"
  by (rule ext) (simp add: map_add_def split: option.splits)

lemma NewPluginRegistry_uniqueKeys: "uniqueKeys NewPluginRegistry"
  by (simp add: uniqueKeys_def NewPluginRegistry_def)

lemma Register_uniqueKeys: "uniqueKeys r \<Longrightarrow> uniqueKeys (fst (Register x r))"
  by (auto simp add: uniqueKeys_def Register_def Let_def map_of_eq_None_iff split: option.splits)

lemma Unregister_uniqueKeys: "uniqueKeys r \<Longrightarrow> uniqueKeys (fst (Unregister name r))"
  by (auto simp add: uniqueKeys_def Unregister_def distinct_map_filter)

text \<open>
  C9. \<open>Register\<close> returns an error for a nil provider and for a provider whose name is
  already registered; whenever it returns an error the registry is the one it was given;
  and when it succeeds the name was absent and the map gains exactly that one entry.
\<close>

theorem register_rejects_without_change:
  "Register None r = (r, Some ProviderNil) \<and>
   (Exists r (ProviderName pr) \<longrightarrow>
      snd (Register (Some pr) r) \<noteq> None \<and> fst (Register (Some pr) r) = r) \<and>
   (snd (Register x r) \<noteq> None \<longrightarrow> fst (Register x r) = r) \<and>
   (Register (Some pr) r = (r', None) \<longrightarrow>
      \<not> Exists r (ProviderName pr) \<and>
      providers r' = providers r @ [(ProviderName pr, pr)] \<and>
      map_of (providers r') = (map_of (providers r))(ProviderName pr \<mapsto> pr))"
  by (auto simp add: Register_def Exists_def Let_def map_add_fresh split: option.splits if_splits)

theorem register_rejects_without_change_witness:
  "Exists exampleRegistry (ProviderName (OtherImpl ''aws'')) \<and>
   Register (Some (OtherImpl ''aws'')) exampleRegistry =
     (exampleRegistry, Some (ProviderAlreadyRegistered ''aws'')) \<and>
   Register None exampleRegistry = (exampleRegistry, Some ProviderNil) \<and>
   Register (Some (OtherImpl ''oci'')) exampleRegistry =
     (exampleRegistry\<lparr> providers := providers exampleRegistry @ [(''oci'', OtherImpl ''oci'')] \<rparr>, None)"
  using register_rejects_without_change [where r = exampleRegistry and pr = "OtherImpl ''aws''"
          and x = "Some (OtherImpl ''aws'')" and r' = exampleRegistry]
  by (simp add: Register_def Exists_def exampleRegistry_def Let_def)

text \<open>
  C10. \<open>List\<close> returns the registered names in ascending lexicographic order, each
  name of the map and no other; two registries that hold the same names return the same
  list, in whatever order their entries were registered or are ranged over.
\<close>

theorem list_is_sorted:
  "sorted (List r) \<and> set (List r) = fst ` set (providers r) \<and>
   (uniqueKeys r \<and> uniqueKeys r' \<and> fst ` set (providers r) = fst ` set (providers r')
      \<longrightarrow> List r = List r')"
proof -
  have "List r = List r'"
    if "uniqueKeys r" "uniqueKeys r'" "fst ` set (providers r) = fst ` set (providers r')"
  proof (rule sorted_distinct_set_unique)
    show "sorted (List r)" "sorted (List r')" by (simp_all add: List_def)
    show "distinct (List r)" "distinct (List r')"
      using that by (simp_all add: List_def uniqueKeys_def)
    show "set (List r) = set (List r')" using that by (simp add: List_def)
  qed
  then show ?thesis by (simp add: List_def)
qed

theorem list_is_sorted_witness:
  "uniqueKeys exampleRegistry \<and>
   uniqueKeys \<lparr> providers = rev (providers exampleRegistry) \<rparr> \<and>
   List exampleRegistry = [''aws'', ''azure'', ''gcp''] \<and>
   List \<lparr> providers = rev (providers exampleRegistry) \<rparr> = [''aws'', ''azure'', ''gcp''] \<and>
   sorted [''aws'', ''azure'', ''gcp'']"
  using list_is_sorted [of exampleRegistry "\<lparr> providers = rev (providers exampleRegistry) \<rparr>"]
  by (simp add: uniqueKeys_def exampleRegistry_def List_def)

end
